theory Spec2Isabelle
  imports Complex_Main
begin

section \<open>The StatArb pairs-trading script (src/statarb.py)\<close>

text \<open>
  A shallow embedding of the class \<open>StatArb\<close>: the spread and z-score frame built by
  \<open>calculate_spread_and_zscore\<close>, and the open/close decision taken by \<open>on_tick\<close>.

  Numbers. The pandas columns are float64: a finite value is a real and the special
  values that the code can produce and that its comparisons can meet (not-a-number, the
  two infinities of a division by zero) are explicit; the arithmetic that builds the
  spread and the rolling statistics is exact (float64 rounding, overflow, underflow and
  signed zeros are not modelled), and the division of line 167 is also given on
  arbitrary columns. The sizing values are \<open>Decimal\<close>: a result is the exact result
  rounded by the active context.
\<close>

subsection \<open>float64 values and the operations the code applies to them\<close>

datatype pyfloat = Fin real | PInf | NInf | NaN

text \<open>\<open>a - b\<close> on float64.\<close>

fun fsub :: "pyfloat \<Rightarrow> pyfloat \<Rightarrow> pyfloat" where
  "fsub NaN _ = NaN"
| "fsub _ NaN = NaN"
| "fsub (Fin a) (Fin b) = Fin (a - b)"
| "fsub (Fin a) PInf = NInf"
| "fsub (Fin a) NInf = PInf"
| "fsub PInf PInf = NaN"
| "fsub PInf _ = PInf"
| "fsub NInf NInf = NaN"
| "fsub NInf _ = NInf"

text \<open>
  \<open>a / b\<close> on float64 columns: numpy does not raise on a zero divisor, it yields
  not-a-number for 0/0 and an infinity with the sign of the numerator otherwise.
\<close>

fun fdiv :: "pyfloat \<Rightarrow> pyfloat \<Rightarrow> pyfloat" where
  "fdiv NaN _ = NaN"
| "fdiv _ NaN = NaN"
| "fdiv (Fin a) (Fin b) =
     (if b = 0 then (if a = 0 then NaN else if 0 < a then PInf else NInf)
      else Fin (a / b))"
| "fdiv (Fin a) _ = Fin 0"
| "fdiv PInf (Fin b) = (if 0 \<le> b then PInf else NInf)"
| "fdiv NInf (Fin b) = (if 0 \<le> b then NInf else PInf)"
| "fdiv _ _ = NaN"

text \<open>\<open>z > t\<close> and \<open>z < t\<close> for a float64 \<open>z\<close> and a finite number \<open>t\<close>: every comparison
  with not-a-number is false.\<close>

fun fgt :: "pyfloat \<Rightarrow> real \<Rightarrow> bool" where
  "fgt (Fin x) t = (t < x)"
| "fgt PInf t = True"
| "fgt NInf t = False"
| "fgt NaN t = False"

fun flt :: "pyfloat \<Rightarrow> real \<Rightarrow> bool" where
  "flt (Fin x) t = (x < t)"
| "flt PInf t = False"
| "flt NInf t = True"
| "flt NaN t = False"

subsection \<open>Class attributes\<close>

record config =
  exchange :: string
  trading_pair_1 :: string
  trading_pair_2 :: string
  hedge_ratio :: real
  zscore_length :: nat
  spread_length :: nat
  entry_threshold :: real
  exit_threshold :: real
  sl_threshold :: real
  order_amount_usd :: real

text \<open>The values written in the class body (lines 17 to 35); \<open>float(0.3)\<close> is taken as 3/10.\<close>

definition StatArb_config :: config where
  "StatArb_config =
     \<lparr> exchange = ''binance_perpetual_testnet'',
       trading_pair_1 = ''ETH-USDT'',
       trading_pair_2 = ''BTC-USDT'',
       hedge_ratio = 3 / 10,
       zscore_length = 200,
       spread_length = 200 + 50,
       entry_threshold = 1,
       exit_threshold = 0,
       sl_threshold = 3,
       order_amount_usd = 200 \<rparr>"

subsection \<open>The frame of \<open>calculate_spread_and_zscore\<close>\<close>

text \<open>A candle frame restricted to \<open>[['timestamp', 'close']]\<close>: rows in frame order.\<close>

type_synonym candles = "(int \<times> real) list"

record row =
  timestamp :: int
  close_1 :: real
  close_2 :: real
  spread :: real
  z_score :: pyfloat

text \<open>
  \<open>pd.merge(df1, df2, on="timestamp", suffixes=('_1', '_2'))\<close>: the inner join on equal
  timestamps, in the order of the left frame; a timestamp that occurs several times on
  the right gives one row for each occurrence.
\<close>

definition pd_merge :: "candles \<Rightarrow> candles \<Rightarrow> (int \<times> real \<times> real) list" where
  "pd_merge df1 df2 =
     concat (map (\<lambda>(t, c1). map (\<lambda>(t', c2). (t, c1, c2)) (filter (\<lambda>(t', c2). t' = t) df2)) df1)"

text \<open>
  \<open>Series.rolling(window=w)\<close>: the window of row \<open>i\<close> holds the rows \<open>i - w + 1\<close> to \<open>i\<close>
  that exist. \<open>min_periods\<close> defaults to \<open>w\<close>: a window with fewer observations gives
  not-a-number, and so does \<open>mean\<close> on no observation and \<open>std\<close> (one delta degree of
  freedom) on at most one. The two statistics are given in exact arithmetic; the float64
  values that pandas returns differ from them by rounding and by underflow, so what
  depends on a statistic being exactly zero is stated on \<open>z_score_column\<close> below for
  arbitrary columns.
\<close>

definition rolling_windows :: "nat \<Rightarrow> 'a list \<Rightarrow> 'a list list" where
  "rolling_windows w xs = map (\<lambda>i. drop (Suc i - w) (take (Suc i) xs)) [0..<length xs]"

definition window_mean :: "real list \<Rightarrow> real" where
  "window_mean win = sum_list win / real (length win)"

definition window_var :: "real list \<Rightarrow> real" where
  "window_var win =
     sum_list (map (\<lambda>x. (x - window_mean win)\<^sup>2) win) / real (length win - 1)"

definition rolling_mean :: "nat \<Rightarrow> real list \<Rightarrow> pyfloat list" where
  "rolling_mean w xs =
     map (\<lambda>win. if w \<le> length win \<and> 0 < length win then Fin (window_mean win) else NaN)
       (rolling_windows w xs)"

definition rolling_std :: "nat \<Rightarrow> real list \<Rightarrow> pyfloat list" where
  "rolling_std w xs =
     map (\<lambda>win. if w \<le> length win \<and> 1 < length win then Fin (sqrt (window_var win)) else NaN)
       (rolling_windows w xs)"

text \<open>
  Line 167, \<open>(df["spread"] - rolling_mean) / rolling_std\<close>: the element-wise float
  subtraction and division of the three columns, with no test of the divisor.
\<close>

definition z_score_column :: "real list \<Rightarrow> pyfloat list \<Rightarrow> pyfloat list \<Rightarrow> pyfloat list" where
  "z_score_column spreads means stds =
     map (\<lambda>(x, mu, sd). fdiv (fsub (Fin x) mu) sd) (zip spreads (zip means stds))"

text \<open>
  Lines 153 to 175. \<open>None\<close> is the \<open>return None\<close> of the \<open>else\<close> branch. The conversion of
  the timestamp column by \<open>pd.to_datetime\<close> changes its representation only and the
  column is kept as it is; logging is not modelled.
\<close>

definition calculate_spread_and_zscore :: "config \<Rightarrow> candles \<Rightarrow> candles \<Rightarrow> row list option" where
  "calculate_spread_and_zscore cfg df1 df2 =
     (let df = pd_merge df1 df2 in
      if spread_length cfg \<le> length df then
        let spreads = map (\<lambda>(t, c1, c2). c1 - c2 * hedge_ratio cfg) df;
            means = rolling_mean (zscore_length cfg) spreads;
            stds = rolling_std (zscore_length cfg) spreads;
            zs = z_score_column spreads means stds
        in Some (map (\<lambda>((t, c1, c2), x, z).
                   \<lparr> timestamp = t, close_1 = c1, close_2 = c2, spread = x, z_score = z \<rparr>)
                 (zip df (zip spreads zs)))
      else None)"

subsection \<open>The rolling statistics in the words of the specification\<close>



subsection \<open>Instance state, orders and the collaborators of a tick\<close>

text \<open>An order reference as \<open>buy\<close> and \<open>sell\<close> return it; \<open>None\<close> is Python's \<open>None\<close>.\<close>

type_synonym order_ref = "string option"

text \<open>\<open>if self.long_order_id:\<close> tests truthiness: \<open>None\<close> and the empty string are false.\<close>

definition truthy :: "order_ref \<Rightarrow> bool" where
  "truthy r = (case r of None \<Rightarrow> False | Some s \<Rightarrow> s \<noteq> [])"

record state =
  position_open :: bool
  long_order_id :: order_ref
  short_order_id :: order_ref

datatype order_side = BUY | SELL

datatype order_type = MARKET

datatype position_action = OPEN | CLOSE

text \<open>The arguments of one call of \<open>self.buy\<close> or \<open>self.sell\<close>.\<close>

record order =
  side :: order_side
  connector_name :: string
  trading_pair :: string
  amount :: real
  kind :: order_type
  price :: real
  action :: position_action

text \<open>
  What the collaborators answer during one tick: the readiness flags and frames of the
  two candle feeds, \<open>RateOracle.get_pair_rate\<close> and \<open>get_mid_price\<close> for the two pairs
  (\<open>None\<close> when the value is missing), the references that \<open>buy\<close> and \<open>sell\<close> return
  for the opening orders, and the rounding of the active \<open>Decimal\<close> context, which the
  code does not set: it maps the exact result of an operation to the result kept.
\<close>

record market =
  candles_1_ready :: bool
  candles_2_ready :: bool
  candles_1_df :: candles
  candles_2_df :: candles
  pair_rate_1 :: "real option"
  pair_rate_2 :: "real option"
  mid_price_1 :: "real option"
  mid_price_2 :: "real option"
  buy_returns :: order_ref
  sell_returns :: order_ref
  decimal_context :: "real \<Rightarrow> real"

text \<open>The exceptions that the statements of \<open>on_tick\<close> can raise.\<close>

datatype error = IndexError | TypeError | DivisionByZero | InvalidOperation

text \<open>What a tick does, in program order: an order submitted, an attribute assigned.\<close>

datatype effect =
    Submit order
  | Set_long_order_id order_ref
  | Set_short_order_id order_ref
  | Set_position_open bool

fun apply_effect :: "state \<Rightarrow> effect \<Rightarrow> state" where
  "apply_effect s (Submit ord) = s"
| "apply_effect s (Set_long_order_id r) = s\<lparr>long_order_id := r\<rparr>"
| "apply_effect s (Set_short_order_id r) = s\<lparr>short_order_id := r\<rparr>"
| "apply_effect s (Set_position_open b) = s\<lparr>position_open := b\<rparr>"

definition run_effects :: "state \<Rightarrow> effect list \<Rightarrow> state" where
  "run_effects s fx = foldl apply_effect s fx"

fun submitted :: "effect list \<Rightarrow> order list" where
  "submitted [] = []"
| "submitted (Submit ord # fx) = ord # submitted fx"
| "submitted (_ # fx) = submitted fx"

fun flag_writes :: "effect list \<Rightarrow> bool list" where
  "flag_writes [] = []"
| "flag_writes (Set_position_open b # fx) = b # flag_writes fx"
| "flag_writes (_ # fx) = flag_writes fx"

subsection \<open>Construction\<close>

text \<open>
  Lines 36 to 43: the instance starts with the class attributes \<open>position_open = False\<close>,
  \<open>long_order_id = None\<close>, \<open>short_order_id = None\<close>; \<open>__init__\<close> calls the base class and
  starts the two candle feeds. No statement reads a threshold.
\<close>

definition initial_state :: state where
  "initial_state = \<lparr> position_open = False, long_order_id = None, short_order_id = None \<rparr>"

definition StatArb_init :: "config \<Rightarrow> error + state" where
  "StatArb_init cfg = Inr initial_state"

subsection \<open>\<open>on_tick\<close>\<close>

definition all_candles_ready :: "market \<Rightarrow> bool" where
  "all_candles_ready m = list_all (\<lambda>b. b) [candles_2_ready m, candles_1_ready m]"

text \<open>\<open>df["z_score"].iloc[-1]\<close>: the last element; an empty column raises.\<close>

definition iloc_last :: "'a list \<Rightarrow> error + 'a" where
  "iloc_last xs = (if xs = [] then Inl IndexError else Inr (last xs))"

text \<open>
  Python's default \<open>Decimal\<close> context: a result is rounded to 28 significant digits,
  ties to the even neighbour. \<open>decimal_round prec\<close> rounds to \<open>prec\<close> significant digits.
\<close>

definition round_half_even :: "real \<Rightarrow> int" where
  "round_half_even q =
     (let f = \<lfloor>q\<rfloor>; d = q - of_int f
      in if d < 1 / 2 then f else if 1 / 2 < d then f + 1 else if even f then f else f + 1)"

definition decimal_round :: "nat \<Rightarrow> real \<Rightarrow> real" where
  "decimal_round prec x =
     (if x = 0 then 0
      else let ulp = 10 powi (\<lfloor>log 10 \<bar>x\<bar>\<rfloor> - int prec + 1)
           in of_int (round_half_even (x / ulp)) * ulp)"

text \<open>
  \<open>a / b\<close> on \<open>Decimal\<close>: a zero divisor is trapped, otherwise the exact quotient is
  rounded by the context \<open>ctx\<close>.
\<close>

definition dec_div :: "(real \<Rightarrow> real) \<Rightarrow> real \<Rightarrow> real \<Rightarrow> error + real" where
  "dec_div ctx a b =
     (if b = 0 then Inl (if a = 0 then InvalidOperation else DivisionByZero)
      else Inr (ctx (a / b)))"

text \<open>\<open>Decimal(0.99)\<close> is the exact value of the double nearest to 0.99.\<close>

definition dec_099 :: real where
  "dec_099 = 4458563631096791 / 4503599627370496"

text \<open>
  \<open>get_mid_price(pair) * Decimal(0.99)\<close>: multiplying \<open>None\<close> raises, otherwise the exact
  product is rounded by the context \<open>ctx\<close>.
\<close>

definition discounted :: "(real \<Rightarrow> real) \<Rightarrow> real option \<Rightarrow> error + real" where
  "discounted ctx mid =
     (case mid of None \<Rightarrow> Inl TypeError | Some p \<Rightarrow> Inr (ctx (p * dec_099)))"

definition market_order ::
  "config \<Rightarrow> order_side \<Rightarrow> string \<Rightarrow> real \<Rightarrow> real \<Rightarrow> position_action \<Rightarrow> order" where
  "market_order cfg sd pair amt prc act =
     \<lparr> side = sd, connector_name = exchange cfg, trading_pair = pair, amount = amt,
       kind = MARKET, price = prc, action = act \<rparr>"

text \<open>
  Lines 68 to 108, the \<open>if\<close>/\<open>elif\<close> on the z-score and the position flag. The references
  returned by the two closing orders are dropped by the code.
\<close>

definition on_tick_decision ::
  "config \<Rightarrow> market \<Rightarrow> state \<Rightarrow> pyfloat \<Rightarrow> real \<Rightarrow> real \<Rightarrow> real \<Rightarrow> real \<Rightarrow> effect list" where
  "on_tick_decision cfg m s zscore amount_1 amount_2 price_1 price_2 =
     (if fgt zscore (entry_threshold cfg) \<and> flt zscore (sl_threshold cfg) \<and> \<not> position_open s
      then
        [ Submit (market_order cfg BUY (trading_pair_1 cfg) amount_1 price_1 OPEN),
          Set_long_order_id (buy_returns m),
          Submit (market_order cfg SELL (trading_pair_2 cfg) amount_2 price_2 OPEN),
          Set_short_order_id (sell_returns m),
          Set_position_open True ]
      else if (flt zscore (exit_threshold cfg) \<or> fgt zscore (entry_threshold cfg)) \<and> position_open s
      then
        (if truthy (long_order_id s)
         then [Submit (market_order cfg BUY (trading_pair_1 cfg) amount_1 price_1 CLOSE)] else [])
        @ (if truthy (short_order_id s)
           then [Submit (market_order cfg SELL (trading_pair_2 cfg) amount_2 price_2 CLOSE)] else [])
        @ [Set_position_open False]
      else [])"

text \<open>
  Lines 49 to 108. \<open>Inl\<close> is an exception leaving \<open>on_tick\<close>; every statement that can raise
  comes before the first order and the first assignment, so an exception leaves the
  instance as it was and no order submitted. \<open>Inr\<close> is a normal return with the effects of
  the tick in program order.
\<close>

definition on_tick :: "config \<Rightarrow> market \<Rightarrow> state \<Rightarrow> error + effect list" where
  "on_tick cfg m s =
     (if all_candles_ready m then
        (case calculate_spread_and_zscore cfg (candles_1_df m) (candles_2_df m) of
           None \<Rightarrow> Inr []
         | Some df \<Rightarrow>
            (case iloc_last (map z_score df) of
               Inl e \<Rightarrow> Inl e
             | Inr zscore \<Rightarrow>
                (case (pair_rate_1 m, pair_rate_2 m) of
                   (Some conversion_rate_1, Some conversion_rate_2) \<Rightarrow>
                     (case dec_div (decimal_context m) (order_amount_usd cfg) conversion_rate_1 of
                        Inl e \<Rightarrow> Inl e
                      | Inr amount_1 \<Rightarrow>
                     (case dec_div (decimal_context m) (order_amount_usd cfg) conversion_rate_2 of
                        Inl e \<Rightarrow> Inl e
                      | Inr amount_2 \<Rightarrow>
                     (case discounted (decimal_context m) (mid_price_1 m) of
                        Inl e \<Rightarrow> Inl e
                      | Inr price_1 \<Rightarrow>
                     (case discounted (decimal_context m) (mid_price_2 m) of
                        Inl e \<Rightarrow> Inl e
                      | Inr price_2 \<Rightarrow>
                          Inr (on_tick_decision cfg m s zscore amount_1 amount_2 price_1 price_2)))))
                 | _ \<Rightarrow> Inr [])))
      else Inr [])"

text \<open>One tick as a state transformer: the instance after the tick and the orders sent.\<close>

definition tick :: "config \<Rightarrow> market \<Rightarrow> state \<Rightarrow> error + (state \<times> order list)" where
  "tick cfg m s =
     (case on_tick cfg m s of
        Inl e \<Rightarrow> Inl e
      | Inr fx \<Rightarrow> Inr (run_effects s fx, submitted fx))"

text \<open>
  The instances that a run of ticks can reach from construction, when every market
  snapshot satisfies \<open>env\<close>. A tick that raises leaves the instance unchanged, so it adds
  no state.
\<close>

inductive reachable :: "config \<Rightarrow> (market \<Rightarrow> bool) \<Rightarrow> state \<Rightarrow> bool" for cfg env where
  constructed: "StatArb_init cfg = Inr s \<Longrightarrow> reachable cfg env s"
| ticked: "reachable cfg env s \<Longrightarrow> env m \<Longrightarrow> tick cfg m s = Inr (s', ords) \<Longrightarrow> reachable cfg env s'"

text \<open>
  The decision block alone as a state transformer, for a z-score given directly: the
  instance after lines 68 to 108 and the orders sent.
\<close>

definition decision_step ::
  "config \<Rightarrow> market \<Rightarrow> real \<Rightarrow> real \<Rightarrow> real \<Rightarrow> real \<Rightarrow> state \<Rightarrow> pyfloat \<Rightarrow> state \<times> order list" where
  "decision_step cfg m amount_1 amount_2 price_1 price_2 s zscore =
     (let fx = on_tick_decision cfg m s zscore amount_1 amount_2 price_1 price_2
      in (run_effects s fx, submitted fx))"

subsection \<open>Small inputs for the examples\<close>

text \<open>The shipped configuration with a window of four rows, so that four candles suffice.\<close>

definition cfg4 :: config where
  "cfg4 = StatArb_config\<lparr>zscore_length := 4, spread_length := 4\<rparr>"

definition frame_a :: candles where
  "frame_a = [(0, 0), (60, 0), (120, 0), (180, 2)]"

definition frame_b :: candles where
  "frame_b = [(0, 0), (60, 0), (120, 0), (180, 0)]"


definition frame_flat :: candles where
  "frame_flat = [(0, 5), (60, 5), (120, 5), (180, 5)]"

text \<open>
  Ready feeds whose last z-score is 3/2, rates and mid prices present, under a context
  precise enough to keep the sizes and prices of this market exact.
\<close>

definition market_a :: market where
  "market_a =
     \<lparr> candles_1_ready = True, candles_2_ready = True,
       candles_1_df = frame_a, candles_2_df = frame_b,
       pair_rate_1 = Some 2000, pair_rate_2 = Some 40000,
       mid_price_1 = Some 2000, mid_price_2 = Some 40000,
       buy_returns = Some ''buy-1'', sell_returns = Some ''sell-1'',
       decimal_context = (\<lambda>x. x) \<rparr>"

definition open_state :: state where
  "open_state =
     \<lparr> position_open = True, long_order_id = Some ''buy-1'', short_order_id = Some ''sell-1'' \<rparr>"

text \<open>What a run may assume of the references that \<open>buy\<close> and \<open>sell\<close> return.\<close>

definition refs_non_null :: "market \<Rightarrow> bool" where
  "refs_non_null m = (buy_returns m \<noteq> None \<and> sell_returns m \<noteq> None)"

definition refs_truthy :: "market \<Rightarrow> bool" where
  "refs_truthy m = (truthy (buy_returns m) \<and> truthy (sell_returns m))"

definition any_market :: "market \<Rightarrow> bool" where
  "any_market m = True"

text \<open>Variants of the four-candle market: the default \<open>Decimal\<close> context with a
  conversion rate of 3, a missing mid price, a missing conversion rate, a frame one row
  short, constant closes, and empty order references.\<close>

definition market_default :: market where
  "market_default = market_a\<lparr>pair_rate_1 := Some 3, decimal_context := decimal_round 28\<rparr>"

definition market_no_mid :: market where
  "market_no_mid = market_a\<lparr>mid_price_1 := None\<rparr>"

definition market_no_rate :: market where
  "market_no_rate = market_a\<lparr>pair_rate_2 := None\<rparr>"

definition market_short :: market where
  "market_short = market_a\<lparr>candles_1_df := butlast frame_a\<rparr>"

definition market_flat :: market where
  "market_flat = market_a\<lparr>candles_1_df := frame_flat, candles_2_df := frame_flat\<rparr>"

definition market_empty_refs :: market where
  "market_empty_refs = market_a\<lparr>buy_returns := Some [], sell_returns := Some []\<rparr>"

definition open_state_empty_refs :: state where
  "open_state_empty_refs =
     \<lparr> position_open = True, long_order_id = Some [], short_order_id = Some [] \<rparr>"

text \<open>Thresholds out of order: the exit threshold is not below the entry threshold.\<close>

definition cfg_malformed :: config where
  "cfg_malformed = cfg4\<lparr>entry_threshold := 0, exit_threshold := 1\<rparr>"

text \<open>The frames expected for the four candles, for a last close of 4 and for the constant
  closes.\<close>

definition frame_a_rows :: "row list" where
  "frame_a_rows =
     [\<lparr>timestamp = 0, close_1 = 0, close_2 = 0, spread = 0, z_score = NaN\<rparr>,
      \<lparr>timestamp = 60, close_1 = 0, close_2 = 0, spread = 0, z_score = NaN\<rparr>,
      \<lparr>timestamp = 120, close_1 = 0, close_2 = 0, spread = 0, z_score = NaN\<rparr>,
      \<lparr>timestamp = 180, close_1 = 2, close_2 = 0, spread = 2, z_score = Fin (3 / 2)\<rparr>]"


definition frame_flat_rows :: "row list" where
  "frame_flat_rows =
     [\<lparr>timestamp = 0, close_1 = 5, close_2 = 5, spread = 7 / 2, z_score = NaN\<rparr>,
      \<lparr>timestamp = 60, close_1 = 5, close_2 = 5, spread = 7 / 2, z_score = NaN\<rparr>,
      \<lparr>timestamp = 120, close_1 = 5, close_2 = 5, spread = 7 / 2, z_score = NaN\<rparr>,
      \<lparr>timestamp = 180, close_1 = 5, close_2 = 5, spread = 7 / 2, z_score = NaN\<rparr>]"

section \<open>Evaluating the small inputs\<close>

lemma merge_a_b: "pd_merge frame_a frame_b = [(0,0,0),(60,0,0),(120,0,0),(180,2,0)]"
  by (simp add: pd_merge_def frame_a_def frame_b_def)

lemma upt_4: "[0..<4] = [0,1,2,3]" by (simp add: upt_rec)

lemma calculate_a_b: "calculate_spread_and_zscore cfg4 frame_a frame_b = Some
  [\<lparr>timestamp = 0, close_1 = 0, close_2 = 0, spread = 0, z_score = NaN\<rparr>,
   \<lparr>timestamp = 60, close_1 = 0, close_2 = 0, spread = 0, z_score = NaN\<rparr>,
   \<lparr>timestamp = 120, close_1 = 0, close_2 = 0, spread = 0, z_score = NaN\<rparr>,
   \<lparr>timestamp = 180, close_1 = 2, close_2 = 0, spread = 2, z_score = Fin (3/2)\<rparr>]"
  by (simp add: calculate_spread_and_zscore_def z_score_column_def merge_a_b cfg4_def StatArb_config_def rolling_mean_def
     rolling_std_def rolling_windows_def upt_4 window_mean_def window_var_def power2_eq_square)
section \<open>The decision of a tick\<close>

text \<open>
  A tick reaches the decision block when both feeds are ready, the frame is returned and
  not empty, both conversion rates are present and not zero, and both mid prices are
  present; the z-score it decides on is the last one of the frame.
\<close>

lemma on_tick_reaches_decision:
  assumes "all_candles_ready m"
    and "calculate_spread_and_zscore cfg (candles_1_df m) (candles_2_df m) = Some df"
    and "df \<noteq> []"
    and "pair_rate_1 m = Some r1" and "r1 \<noteq> 0"
    and "pair_rate_2 m = Some r2" and "r2 \<noteq> 0"
    and "mid_price_1 m = Some p1" and "mid_price_2 m = Some p2"
  shows "on_tick cfg m s =
           Inr (on_tick_decision cfg m s (z_score (last df))
                  (decimal_context m (order_amount_usd cfg / r1))
                  (decimal_context m (order_amount_usd cfg / r2))
                  (decimal_context m (p1 * dec_099)) (decimal_context m (p2 * dec_099)))"
  using assms by (simp add: on_tick_def iloc_last_def dec_div_def discounted_def last_map)

lemma decision_flat:
  assumes "\<not> position_open s"
  shows "on_tick_decision cfg m s (Fin x) a1 a2 p1 p2 =
     (if entry_threshold cfg < x \<and> x < sl_threshold cfg then
        [ Submit (market_order cfg BUY (trading_pair_1 cfg) a1 p1 OPEN),
          Set_long_order_id (buy_returns m),
          Submit (market_order cfg SELL (trading_pair_2 cfg) a2 p2 OPEN),
          Set_short_order_id (sell_returns m),
          Set_position_open True ]
      else [])"
  using assms by (simp add: on_tick_decision_def)

lemma decision_open:
  assumes "position_open s"
  shows "on_tick_decision cfg m s (Fin x) a1 a2 p1 p2 =
     (if x < exit_threshold cfg \<or> entry_threshold cfg < x then
        (if truthy (long_order_id s)
         then [Submit (market_order cfg BUY (trading_pair_1 cfg) a1 p1 CLOSE)] else [])
        @ (if truthy (short_order_id s)
           then [Submit (market_order cfg SELL (trading_pair_2 cfg) a2 p2 CLOSE)] else [])
        @ [Set_position_open False]
      else [])"
  using assms by (simp add: on_tick_decision_def)

lemma market_a_ready: "all_candles_ready market_a"
  by (simp add: all_candles_ready_def market_a_def)

lemma market_a_frame:
  "calculate_spread_and_zscore cfg4 (candles_1_df market_a) (candles_2_df market_a) = Some
  [\<lparr>timestamp = 0, close_1 = 0, close_2 = 0, spread = 0, z_score = NaN\<rparr>,
   \<lparr>timestamp = 60, close_1 = 0, close_2 = 0, spread = 0, z_score = NaN\<rparr>,
   \<lparr>timestamp = 120, close_1 = 0, close_2 = 0, spread = 0, z_score = NaN\<rparr>,
   \<lparr>timestamp = 180, close_1 = 2, close_2 = 0, spread = 2, z_score = Fin (3/2)\<rparr>]"
  by (simp add: market_a_def calculate_a_b)

lemma on_tick_market_no_rate: "on_tick cfg4 market_no_rate s = Inr []"
  using market_a_ready market_a_frame
  by (auto simp add: on_tick_def market_no_rate_def all_candles_ready_def iloc_last_def
      split: option.splits)

lemma leading_digit:
  assumes "10 powi k \<le> \<bar>x\<bar>" and "\<bar>x\<bar> < 10 powi (k + 1)"
  shows "\<lfloor>log 10 \<bar>x\<bar>\<rfloor> = k"
proof -
  have pos: "0 < \<bar>x\<bar>"
    using assms(1) by (smt (verit) zero_less_power_int)
  have lo: "(10::real) powr real_of_int k = 10 powi k"
    by (rule powr_real_of_int') simp_all
  have hi: "(10::real) powr real_of_int (k + 1) = 10 powi (k + 1)"
    by (rule powr_real_of_int') simp_all
  have "\<lfloor>log 10 \<bar>x\<bar>\<rfloor> = k \<longleftrightarrow>
          10 powr real_of_int k \<le> \<bar>x\<bar> \<and> \<bar>x\<bar> < 10 powr real_of_int (k + 1)"
    using pos by (intro floor_log_eq_powr_iff) simp_all
  with assms show ?thesis
    by (simp only: lo hi)
qed

text \<open>The sizes and prices of the default-context market, as Python computes them.\<close>

lemma default_context_values:
  "decimal_round 28 (200 / 3) = 6666666666666666666666666667 / 10 ^ 26"
  "decimal_round 28 (1 / 200) = 5 / 10 ^ 3"
  "decimal_round 28 (2000 * dec_099) = 1979999999999999982236431606 / 10 ^ 24"
  "decimal_round 28 (40000 * dec_099) = 3959999999999999964472863212 / 10 ^ 23"
proof -
  have "\<lfloor>log 10 \<bar>200 / 3 :: real\<bar>\<rfloor> = 1"
    by (rule leading_digit) simp_all
  then show "decimal_round 28 (200 / 3) = 6666666666666666666666666667 / 10 ^ 26"
    by (simp add: decimal_round_def round_half_even_def Let_def)
  have "\<lfloor>log 10 \<bar>1 / 200 :: real\<bar>\<rfloor> = - 3"
    by (rule leading_digit) simp_all
  then show "decimal_round 28 (1 / 200) = 5 / 10 ^ 3"
    by (simp add: decimal_round_def round_half_even_def Let_def)
  have "\<lfloor>log 10 \<bar>2000 * dec_099\<bar>\<rfloor> = 3"
    by (rule leading_digit) (simp_all add: dec_099_def)
  then show "decimal_round 28 (2000 * dec_099) = 1979999999999999982236431606 / 10 ^ 24"
    by (simp add: decimal_round_def round_half_even_def Let_def dec_099_def)
  have "\<lfloor>log 10 \<bar>40000 * dec_099\<bar>\<rfloor> = 4"
    by (rule leading_digit) (simp_all add: dec_099_def)
  then show "decimal_round 28 (40000 * dec_099) = 3959999999999999964472863212 / 10 ^ 23"
    by (simp add: decimal_round_def round_half_even_def Let_def dec_099_def)
qed

lemma market_default_inputs:
  "all_candles_ready market_default"
  "calculate_spread_and_zscore cfg4 (candles_1_df market_default) (candles_2_df market_default) = Some
  [\<lparr>timestamp = 0, close_1 = 0, close_2 = 0, spread = 0, z_score = NaN\<rparr>,
   \<lparr>timestamp = 60, close_1 = 0, close_2 = 0, spread = 0, z_score = NaN\<rparr>,
   \<lparr>timestamp = 120, close_1 = 0, close_2 = 0, spread = 0, z_score = NaN\<rparr>,
   \<lparr>timestamp = 180, close_1 = 2, close_2 = 0, spread = 2, z_score = Fin (3/2)\<rparr>]"
  using market_a_ready market_a_frame
  by (simp_all add: market_default_def all_candles_ready_def)

text \<open>
  Claim C1 as stated fails: the guard of line 59 returns before the decision. With the
  flag unset and the z-score 3/2 strictly between the entry threshold 1 and the stop
  threshold 3, a tick whose second conversion rate is missing submits nothing and
  leaves the flag unset.
\<close>

theorem missing_rate_blocks_open:
  "z_score (last frame_a_rows) = Fin (3 / 2)
   \<and> calculate_spread_and_zscore cfg4 (candles_1_df market_no_rate) (candles_2_df market_no_rate)
       = Some frame_a_rows
   \<and> entry_threshold cfg4 < 3 / 2 \<and> 3 / 2 < sl_threshold cfg4
   \<and> \<not> position_open initial_state
   \<and> tick cfg4 market_no_rate initial_state = Inr (initial_state, [])"
proof -
  have "calculate_spread_and_zscore cfg4 (candles_1_df market_no_rate) (candles_2_df market_no_rate)
       = Some frame_a_rows"
    using market_a_frame by (simp add: market_no_rate_def frame_a_rows_def)
  moreover have "tick cfg4 market_no_rate initial_state = Inr (initial_state, [])"
    by (simp add: tick_def on_tick_market_no_rate run_effects_def)
  ultimately show ?thesis
    by (simp add: frame_a_rows_def cfg4_def StatArb_config_def initial_state_def)
qed

text \<open>
  Claim C1, amended. In a tick that reaches the decision (both feeds ready, the frame
  returned, both conversion rates present and not zero, both mid prices present) with a
  finite z-score \<open>x\<close> while the position flag is unset (FLAT), the two opening orders
  (a market buy of pair 1 and a market sell of pair 2, both with position action OPEN,
  sized and priced as lines 63 to 66 compute them under the active context) are
  submitted, their references stored and the flag set exactly when
  \<open>entry_threshold < x < sl_threshold\<close>; otherwise nothing is submitted and the instance
  is unchanged. Both comparisons are strict: \<open>x = entry_threshold\<close> and
  \<open>x = sl_threshold\<close> do not open.
\<close>

theorem on_tick_opens_iff:
  assumes "all_candles_ready m"
    and "calculate_spread_and_zscore cfg (candles_1_df m) (candles_2_df m) = Some df"
    and "df \<noteq> []" and "z_score (last df) = Fin x"
    and "pair_rate_1 m = Some r1" and "r1 \<noteq> 0"
    and "pair_rate_2 m = Some r2" and "r2 \<noteq> 0"
    and "mid_price_1 m = Some p1" and "mid_price_2 m = Some p2"
    and "\<not> position_open s"
  shows "\<exists>s' ords. tick cfg m s = Inr (s', ords) \<and>
           ((ords = [\<lparr> side = BUY, connector_name = exchange cfg,
                       trading_pair = trading_pair_1 cfg,
                       amount = decimal_context m (order_amount_usd cfg / r1),
                       kind = MARKET, price = decimal_context m (p1 * dec_099),
                       action = OPEN \<rparr>,
                     \<lparr> side = SELL, connector_name = exchange cfg,
                       trading_pair = trading_pair_2 cfg,
                       amount = decimal_context m (order_amount_usd cfg / r2),
                       kind = MARKET, price = decimal_context m (p2 * dec_099),
                       action = OPEN \<rparr>]
             \<and> s' = \<lparr> position_open = True, long_order_id = buy_returns m,
                      short_order_id = sell_returns m \<rparr>)
            \<longleftrightarrow> (entry_threshold cfg < x \<and> x < sl_threshold cfg))
         \<and> (\<not> (entry_threshold cfg < x \<and> x < sl_threshold cfg) \<longrightarrow> ords = [] \<and> s' = s)
         \<and> (x = entry_threshold cfg \<or> x = sl_threshold cfg \<longrightarrow> ords = [] \<and> s' = s)"
  using assms
  by (auto simp add: tick_def on_tick_reaches_decision [OF assms(1-3) assms(5-10)] decision_flat
      run_effects_def market_order_def)

text \<open>
  The theorem at the four candles under Python's default context, conversion rates 3
  and 40000, mid prices 2000 and 40000: the z-score 3/2 lies between the thresholds 1
  and 3 and the tick opens, with the sizes and prices that Python computes.
\<close>

theorem on_tick_opens_iff_witness:
  "all_candles_ready market_default \<and> \<not> position_open initial_state \<and>
   tick cfg4 market_default initial_state =
     Inr (open_state,
          [\<lparr> side = BUY, connector_name = ''binance_perpetual_testnet'',
             trading_pair = ''ETH-USDT'',
             amount = 6666666666666666666666666667 / 10 ^ 26,
             kind = MARKET, price = 1979999999999999982236431606 / 10 ^ 24,
             action = OPEN \<rparr>,
           \<lparr> side = SELL, connector_name = ''binance_perpetual_testnet'',
             trading_pair = ''BTC-USDT'',
             amount = 5 / 10 ^ 3,
             kind = MARKET, price = 3959999999999999964472863212 / 10 ^ 23,
             action = OPEN \<rparr>])"
proof -
  have flat: "\<not> position_open initial_state"
    by (simp add: initial_state_def)
  have band: "entry_threshold cfg4 < 3 / 2 \<and> 3 / 2 < sl_threshold cfg4"
    by (simp add: cfg4_def StatArb_config_def)
  have "\<exists>s' ords. tick cfg4 market_default initial_state = Inr (s', ords) \<and>
           ((ords = [\<lparr> side = BUY, connector_name = exchange cfg4,
                       trading_pair = trading_pair_1 cfg4,
                       amount = decimal_context market_default (order_amount_usd cfg4 / 3),
                       kind = MARKET, price = decimal_context market_default (2000 * dec_099),
                       action = OPEN \<rparr>,
                     \<lparr> side = SELL, connector_name = exchange cfg4,
                       trading_pair = trading_pair_2 cfg4,
                       amount = decimal_context market_default (order_amount_usd cfg4 / 40000),
                       kind = MARKET, price = decimal_context market_default (40000 * dec_099),
                       action = OPEN \<rparr>]
             \<and> s' = \<lparr> position_open = True, long_order_id = buy_returns market_default,
                      short_order_id = sell_returns market_default \<rparr>)
            \<longleftrightarrow> (entry_threshold cfg4 < 3 / 2 \<and> 3 / 2 < sl_threshold cfg4))
         \<and> (\<not> (entry_threshold cfg4 < 3 / 2 \<and> 3 / 2 < sl_threshold cfg4) \<longrightarrow> ords = [] \<and> s' = initial_state)
         \<and> (3 / 2 = entry_threshold cfg4 \<or> 3 / 2 = sl_threshold cfg4 \<longrightarrow> ords = [] \<and> s' = initial_state)"
    by (rule on_tick_opens_iff [OF market_default_inputs _ _ _ _ _ _ _ _ flat])
       (simp_all add: market_default_def market_a_def)
  with band have "tick cfg4 market_default initial_state =
     Inr (\<lparr> position_open = True, long_order_id = buy_returns market_default,
             short_order_id = sell_returns market_default \<rparr>,
          [\<lparr> side = BUY, connector_name = exchange cfg4,
                       trading_pair = trading_pair_1 cfg4,
                       amount = decimal_context market_default (order_amount_usd cfg4 / 3),
                       kind = MARKET, price = decimal_context market_default (2000 * dec_099),
                       action = OPEN \<rparr>,
                     \<lparr> side = SELL, connector_name = exchange cfg4,
                       trading_pair = trading_pair_2 cfg4,
                       amount = decimal_context market_default (order_amount_usd cfg4 / 40000),
                       kind = MARKET, price = decimal_context market_default (40000 * dec_099),
                       action = OPEN \<rparr>])"
    by blast
  moreover have "decimal_context market_default = decimal_round 28"
    "buy_returns market_default = Some ''buy-1''" "sell_returns market_default = Some ''sell-1''"
    by (simp_all add: market_default_def market_a_def)
  moreover have "order_amount_usd cfg4 = 200" "exchange cfg4 = ''binance_perpetual_testnet''"
    "trading_pair_1 cfg4 = ''ETH-USDT''" "trading_pair_2 cfg4 = ''BTC-USDT''"
    by (simp_all add: cfg4_def StatArb_config_def)
  ultimately show ?thesis
    using flat market_default_inputs(1)
    by (simp add: default_context_values open_state_def)
qed

text \<open>
  Claim C2 as stated fails for the same guard: with the flag set and the z-score 3/2
  above the entry threshold 1, a tick whose second conversion rate is missing submits
  nothing and leaves the flag set.
\<close>

theorem missing_rate_blocks_close:
  "z_score (last frame_a_rows) = Fin (3 / 2)
   \<and> calculate_spread_and_zscore cfg4 (candles_1_df market_no_rate) (candles_2_df market_no_rate)
       = Some frame_a_rows
   \<and> entry_threshold cfg4 < 3 / 2
   \<and> position_open open_state
   \<and> tick cfg4 market_no_rate open_state = Inr (open_state, [])"
proof -
  have "calculate_spread_and_zscore cfg4 (candles_1_df market_no_rate) (candles_2_df market_no_rate)
       = Some frame_a_rows"
    using market_a_frame by (simp add: market_no_rate_def frame_a_rows_def)
  moreover have "tick cfg4 market_no_rate open_state = Inr (open_state, [])"
    by (simp add: tick_def on_tick_market_no_rate run_effects_def)
  ultimately show ?thesis
    by (simp add: frame_a_rows_def cfg4_def StatArb_config_def open_state_def)
qed

text \<open>
  Claim C2, amended. In a tick that reaches the decision (both feeds ready, the frame
  returned, both conversion rates present and not zero, both mid prices present) with a
  finite z-score \<open>x\<close> while the position flag is set (OPEN), the flag is cleared and the
  closing legs (a market buy of pair 1 and a market sell of pair 2 with position action
  CLOSE, each sent when its stored reference is truthy) are submitted exactly when
  \<open>x < exit_threshold\<close> or \<open>x > entry_threshold\<close>; otherwise nothing is submitted and the
  instance is unchanged (HOLD).
\<close>

theorem on_tick_closes_iff:
  assumes "all_candles_ready m"
    and "calculate_spread_and_zscore cfg (candles_1_df m) (candles_2_df m) = Some df"
    and "df \<noteq> []" and "z_score (last df) = Fin x"
    and "pair_rate_1 m = Some r1" and "r1 \<noteq> 0"
    and "pair_rate_2 m = Some r2" and "r2 \<noteq> 0"
    and "mid_price_1 m = Some p1" and "mid_price_2 m = Some p2"
    and "position_open s"
  shows "\<exists>s' ords. tick cfg m s = Inr (s', ords) \<and>
           ((s' = \<lparr> position_open = False, long_order_id = long_order_id s,
                    short_order_id = short_order_id s \<rparr> \<and>
             ords = (if truthy (long_order_id s)
                     then [\<lparr> side = BUY, connector_name = exchange cfg,
                              trading_pair = trading_pair_1 cfg,
                              amount = decimal_context m (order_amount_usd cfg / r1),
                              kind = MARKET, price = decimal_context m (p1 * dec_099),
                              action = CLOSE \<rparr>]
                     else [])
                  @ (if truthy (short_order_id s)
                     then [\<lparr> side = SELL, connector_name = exchange cfg,
                              trading_pair = trading_pair_2 cfg,
                              amount = decimal_context m (order_amount_usd cfg / r2),
                              kind = MARKET, price = decimal_context m (p2 * dec_099),
                              action = CLOSE \<rparr>]
                     else []))
            \<longleftrightarrow> (x < exit_threshold cfg \<or> entry_threshold cfg < x))
         \<and> (\<not> (x < exit_threshold cfg \<or> entry_threshold cfg < x) \<longrightarrow> ords = [] \<and> s' = s)"
proof -
  have neq: "s \<noteq> \<lparr> position_open = False, long_order_id = long_order_id s,
                    short_order_id = short_order_id s \<rparr>"
    using assms(11) by (metis state.select_convs(1))
  show ?thesis
    using assms neq
    by (auto simp add: tick_def on_tick_reaches_decision [OF assms(1-3) assms(5-10)] decision_open
        run_effects_def market_order_def)
qed

text \<open>
  The theorem at the four candles under Python's default context with an open position:
  the z-score 3/2 exceeds the entry threshold 1 and the tick closes both legs, with the
  sizes and prices that Python computes.
\<close>

theorem on_tick_closes_iff_witness:
  "all_candles_ready market_default \<and> position_open open_state \<and>
   tick cfg4 market_default open_state =
     Inr (\<lparr> position_open = False, long_order_id = Some ''buy-1'',
             short_order_id = Some ''sell-1'' \<rparr>,
          [\<lparr> side = BUY, connector_name = ''binance_perpetual_testnet'',
             trading_pair = ''ETH-USDT'',
             amount = 6666666666666666666666666667 / 10 ^ 26,
             kind = MARKET, price = 1979999999999999982236431606 / 10 ^ 24,
             action = CLOSE \<rparr>,
           \<lparr> side = SELL, connector_name = ''binance_perpetual_testnet'',
             trading_pair = ''BTC-USDT'',
             amount = 5 / 10 ^ 3,
             kind = MARKET, price = 3959999999999999964472863212 / 10 ^ 23,
             action = CLOSE \<rparr>])"
proof -
  have opn: "position_open open_state"
    by (simp add: open_state_def)
  have trig: "3 / 2 < exit_threshold cfg4 \<or> entry_threshold cfg4 < 3 / 2"
    by (simp add: cfg4_def StatArb_config_def)
  have refs: "truthy (long_order_id open_state)" "truthy (short_order_id open_state)"
    by (simp_all add: open_state_def truthy_def)
  have "\<exists>s' ords. tick cfg4 market_default open_state = Inr (s', ords) \<and>
           ((s' = \<lparr> position_open = False, long_order_id = long_order_id open_state,
                    short_order_id = short_order_id open_state \<rparr> \<and>
             ords = (if truthy (long_order_id open_state)
                     then [\<lparr> side = BUY, connector_name = exchange cfg4,
                              trading_pair = trading_pair_1 cfg4,
                              amount = decimal_context market_default (order_amount_usd cfg4 / 3),
                              kind = MARKET, price = decimal_context market_default (2000 * dec_099),
                              action = CLOSE \<rparr>]
                     else [])
                  @ (if truthy (short_order_id open_state)
                     then [\<lparr> side = SELL, connector_name = exchange cfg4,
                              trading_pair = trading_pair_2 cfg4,
                              amount = decimal_context market_default (order_amount_usd cfg4 / 40000),
                              kind = MARKET, price = decimal_context market_default (40000 * dec_099),
                              action = CLOSE \<rparr>]
                     else []))
            \<longleftrightarrow> (3 / 2 < exit_threshold cfg4 \<or> entry_threshold cfg4 < 3 / 2))
         \<and> (\<not> (3 / 2 < exit_threshold cfg4 \<or> entry_threshold cfg4 < 3 / 2) \<longrightarrow> ords = [] \<and> s' = open_state)"
    by (rule on_tick_closes_iff [OF market_default_inputs _ _ _ _ _ _ _ _ opn])
       (simp_all add: market_default_def market_a_def)
  with trig refs have "tick cfg4 market_default open_state =
     Inr (\<lparr> position_open = False, long_order_id = long_order_id open_state,
                    short_order_id = short_order_id open_state \<rparr>,
          [\<lparr> side = BUY, connector_name = exchange cfg4,
                              trading_pair = trading_pair_1 cfg4,
                              amount = decimal_context market_default (order_amount_usd cfg4 / 3),
                              kind = MARKET, price = decimal_context market_default (2000 * dec_099),
                              action = CLOSE \<rparr>,
           \<lparr> side = SELL, connector_name = exchange cfg4,
                              trading_pair = trading_pair_2 cfg4,
                              amount = decimal_context market_default (order_amount_usd cfg4 / 40000),
                              kind = MARKET, price = decimal_context market_default (40000 * dec_099),
                              action = CLOSE \<rparr>])"
    by auto
  moreover have "decimal_context market_default = decimal_round 28"
    by (simp add: market_default_def)
  moreover have "order_amount_usd cfg4 = 200" "exchange cfg4 = ''binance_perpetual_testnet''"
    "trading_pair_1 cfg4 = ''ETH-USDT''" "trading_pair_2 cfg4 = ''BTC-USDT''"
    by (simp_all add: cfg4_def StatArb_config_def)
  ultimately show ?thesis
    using opn market_default_inputs(1)
    by (simp add: default_context_values open_state_def)
qed

text \<open>
  Claim C5. \<open>calculate_spread_and_zscore\<close> returns \<open>None\<close> (not ready) exactly when the
  merged frame has fewer than \<open>spread_length\<close> rows.
\<close>

theorem not_ready_iff:
  "calculate_spread_and_zscore cfg df1 df2 = None
     \<longleftrightarrow> length (pd_merge df1 df2) < spread_length cfg"
  by (simp add: calculate_spread_and_zscore_def z_score_column_def Let_def)

text \<open>
  The boundary: with \<open>spread_length = 4\<close>, three merged rows are not ready and four
  are.
\<close>

theorem not_ready_iff_witness:
  "length (pd_merge (butlast frame_a) frame_b) = spread_length cfg4 - 1
   \<and> calculate_spread_and_zscore cfg4 (butlast frame_a) frame_b = None
   \<and> length (pd_merge frame_a frame_b) = spread_length cfg4
   \<and> calculate_spread_and_zscore cfg4 frame_a frame_b \<noteq> None"
proof -
  have short: "length (pd_merge (butlast frame_a) frame_b) = 3"
    by (simp add: pd_merge_def frame_a_def frame_b_def)
  have full: "length (pd_merge frame_a frame_b) = 4"
    by (simp add: merge_a_b)
  have len: "spread_length cfg4 = 4"
    by (simp add: cfg4_def)
  show ?thesis
    using not_ready_iff [of cfg4 "butlast frame_a" frame_b] not_ready_iff [of cfg4 frame_a frame_b]
    by (simp add: short full len)
qed

section \<open>The scenario of three z-scores\<close>

lemma StatArb_thresholds:
  "entry_threshold StatArb_config = 1" "exit_threshold StatArb_config = 0"
  "sl_threshold StatArb_config = 3"
  by (simp_all add: StatArb_config_def)

text \<open>
  Claim C3 as stated fails: with the thresholds 1, 0 and 3, the z-score 3/2 opens the
  position, and the next z-score 2 does not hold it: 2 exceeds the entry threshold, so
  the \<open>elif\<close> closes both legs and clears the flag.
\<close>

theorem scenario_hold_counterexample:
  "decision_step StatArb_config market_a 1 1 1 1 initial_state (Fin (3 / 2)) =
     (open_state,
      [market_order StatArb_config BUY ''ETH-USDT'' 1 1 OPEN,
       market_order StatArb_config SELL ''BTC-USDT'' 1 1 OPEN])
   \<and> decision_step StatArb_config market_a 1 1 1 1 open_state (Fin 2) =
     (open_state\<lparr>position_open := False\<rparr>,
      [market_order StatArb_config BUY ''ETH-USDT'' 1 1 CLOSE,
       market_order StatArb_config SELL ''BTC-USDT'' 1 1 CLOSE])
   \<and> decision_step StatArb_config market_a 1 1 1 1 open_state (Fin 2) \<noteq> (open_state, [])"
  by (simp add: decision_step_def on_tick_decision_def StatArb_thresholds initial_state_def
      open_state_def market_a_def run_effects_def truthy_def StatArb_config_def)

text \<open>
  Claim C3, amended. With the thresholds 1, 0 and 3 and truthy order references: from
  FLAT, the z-score 3/2 submits both opening orders and sets the flag; the z-score 2 on
  the next cycle closes both legs and clears the flag, after which -1/2 finds the
  instance FLAT and does nothing. While OPEN, a z-score between the exit and the entry
  threshold such as 1/2 holds, and -1/2 closes both legs and clears the flag.
\<close>

theorem scenario_as_coded:
  assumes "truthy (buy_returns m)" and "truthy (sell_returns m)"
  shows "decision_step StatArb_config m a1 a2 p1 p2 initial_state (Fin (3 / 2)) =
           (\<lparr>position_open = True, long_order_id = buy_returns m, short_order_id = sell_returns m\<rparr>,
            [market_order StatArb_config BUY ''ETH-USDT'' a1 p1 OPEN,
             market_order StatArb_config SELL ''BTC-USDT'' a2 p2 OPEN])
       \<and> decision_step StatArb_config m a1 a2 p1 p2
           \<lparr>position_open = True, long_order_id = buy_returns m, short_order_id = sell_returns m\<rparr> (Fin 2) =
           (\<lparr>position_open = False, long_order_id = buy_returns m, short_order_id = sell_returns m\<rparr>,
            [market_order StatArb_config BUY ''ETH-USDT'' a1 p1 CLOSE,
             market_order StatArb_config SELL ''BTC-USDT'' a2 p2 CLOSE])
       \<and> decision_step StatArb_config m a1 a2 p1 p2
           \<lparr>position_open = False, long_order_id = buy_returns m, short_order_id = sell_returns m\<rparr> (Fin (- 1 / 2)) =
           (\<lparr>position_open = False, long_order_id = buy_returns m, short_order_id = sell_returns m\<rparr>, [])
       \<and> decision_step StatArb_config m a1 a2 p1 p2
           \<lparr>position_open = True, long_order_id = buy_returns m, short_order_id = sell_returns m\<rparr> (Fin (1 / 2)) =
           (\<lparr>position_open = True, long_order_id = buy_returns m, short_order_id = sell_returns m\<rparr>, [])
       \<and> decision_step StatArb_config m a1 a2 p1 p2
           \<lparr>position_open = True, long_order_id = buy_returns m, short_order_id = sell_returns m\<rparr> (Fin (- 1 / 2)) =
           (\<lparr>position_open = False, long_order_id = buy_returns m, short_order_id = sell_returns m\<rparr>,
            [market_order StatArb_config BUY ''ETH-USDT'' a1 p1 CLOSE,
             market_order StatArb_config SELL ''BTC-USDT'' a2 p2 CLOSE])"
  using assms
  by (simp add: decision_step_def on_tick_decision_def StatArb_thresholds initial_state_def
      run_effects_def StatArb_config_def)

text \<open>The amended scenario at the four-candle market, sizes and prices 1.\<close>

theorem scenario_as_coded_witness:
  "truthy (buy_returns market_a) \<and> truthy (sell_returns market_a)
   \<and> decision_step StatArb_config market_a 1 1 1 1 initial_state (Fin (3 / 2)) =
       (open_state,
        [market_order StatArb_config BUY ''ETH-USDT'' 1 1 OPEN,
         market_order StatArb_config SELL ''BTC-USDT'' 1 1 OPEN])
   \<and> decision_step StatArb_config market_a 1 1 1 1 open_state (Fin (1 / 2)) = (open_state, [])
   \<and> decision_step StatArb_config market_a 1 1 1 1 open_state (Fin (- 1 / 2)) =
       (open_state\<lparr>position_open := False\<rparr>,
        [market_order StatArb_config BUY ''ETH-USDT'' 1 1 CLOSE,
         market_order StatArb_config SELL ''BTC-USDT'' 1 1 CLOSE])"
proof -
  have refs: "truthy (buy_returns market_a)" "truthy (sell_returns market_a)"
    by (simp_all add: market_a_def truthy_def)
  have ids: "buy_returns market_a = Some ''buy-1''" "sell_returns market_a = Some ''sell-1''"
    by (simp_all add: market_a_def)
  show ?thesis
    using scenario_as_coded [OF refs, of 1 1 1 1] refs
    by (simp add: open_state_def ids)
qed

section \<open>Effects of a tick\<close>

lemma on_tick_cases:
  assumes "on_tick cfg m s = Inr fx"
  shows "fx = [] \<or> (\<exists>z a1 a2 p1 p2. fx = on_tick_decision cfg m s z a1 a2 p1 p2)"
  using assms
  by (simp add: on_tick_def split: if_splits option.splits sum.splits) blast+

lemma decision_cases:
  "on_tick_decision cfg m s z a1 a2 p1 p2 = [] 
   \<or> (\<not> position_open s \<and> on_tick_decision cfg m s z a1 a2 p1 p2 =
        [ Submit (market_order cfg BUY (trading_pair_1 cfg) a1 p1 OPEN),
          Set_long_order_id (buy_returns m),
          Submit (market_order cfg SELL (trading_pair_2 cfg) a2 p2 OPEN),
          Set_short_order_id (sell_returns m),
          Set_position_open True ])
   \<or> (position_open s \<and> on_tick_decision cfg m s z a1 a2 p1 p2 =
        (if truthy (long_order_id s)
         then [Submit (market_order cfg BUY (trading_pair_1 cfg) a1 p1 CLOSE)] else [])
        @ (if truthy (short_order_id s)
           then [Submit (market_order cfg SELL (trading_pair_2 cfg) a2 p2 CLOSE)] else [])
        @ [Set_position_open False])"
  by (simp add: on_tick_decision_def)

lemma on_tick_effects:
  assumes "on_tick cfg m s = Inr fx"
  shows "fx = []
   \<or> (\<not> position_open s \<and> (\<exists>a1 a2 p1 p2. fx =
        [ Submit (market_order cfg BUY (trading_pair_1 cfg) a1 p1 OPEN),
          Set_long_order_id (buy_returns m),
          Submit (market_order cfg SELL (trading_pair_2 cfg) a2 p2 OPEN),
          Set_short_order_id (sell_returns m),
          Set_position_open True ]))
   \<or> (position_open s \<and> (\<exists>a1 a2 p1 p2. fx =
        (if truthy (long_order_id s)
         then [Submit (market_order cfg BUY (trading_pair_1 cfg) a1 p1 CLOSE)] else [])
        @ (if truthy (short_order_id s)
           then [Submit (market_order cfg SELL (trading_pair_2 cfg) a2 p2 CLOSE)] else [])
        @ [Set_position_open False]))"
proof -
  from on_tick_cases [OF assms] show ?thesis
  proof
    assume "fx = []" then show ?thesis by simp
  next
    assume "\<exists>z a1 a2 p1 p2. fx = on_tick_decision cfg m s z a1 a2 p1 p2"
    then obtain z a1 a2 p1 p2 where fx: "fx = on_tick_decision cfg m s z a1 a2 p1 p2"
      by blast
    from decision_cases [of cfg m s z a1 a2 p1 p2] show ?thesis
      unfolding fx by blast
  qed
qed

text \<open>
  Claim C7. In every instance reachable from construction (FLAT) and every tick that
  returns: an order with position action OPEN is submitted only when the flag is unset
  before the tick, and then the tick submits exactly the opening buy on pair 1 and the
  opening sell on pair 2 and leaves the flag set; while the flag is set every submitted
  order is a closing one; and the tick assigns the flag at most once, to the negation
  of its value before the tick.
\<close>

theorem one_position_at_a_time:
  assumes "reachable cfg env s" and "on_tick cfg m s = Inr fx"
  shows "((\<exists>ord \<in> set (submitted fx). action ord = OPEN) \<longrightarrow>
            \<not> position_open s \<and> position_open (run_effects s fx) \<and>
            (\<exists>a1 a2 p1 p2. submitted fx =
               [market_order cfg BUY (trading_pair_1 cfg) a1 p1 OPEN,
                market_order cfg SELL (trading_pair_2 cfg) a2 p2 OPEN]))
       \<and> (position_open s \<longrightarrow> (\<forall>ord \<in> set (submitted fx). action ord = CLOSE))
       \<and> length (flag_writes fx) \<le> 1
       \<and> (\<forall>b \<in> set (flag_writes fx). b = (\<not> position_open s))"
  using on_tick_effects [OF assms(2)]
  by (elim disjE conjE exE) (auto simp add: run_effects_def market_order_def)


lemma on_tick_market_a_flat:
  "on_tick cfg4 market_a initial_state =
     Inr [ Submit (market_order cfg4 BUY ''ETH-USDT'' (1 / 10) (2000 * dec_099) OPEN),
           Set_long_order_id (Some ''buy-1''),
           Submit (market_order cfg4 SELL ''BTC-USDT'' (1 / 200) (40000 * dec_099) OPEN),
           Set_short_order_id (Some ''sell-1''),
           Set_position_open True ]"
proof -
  have "on_tick cfg4 market_a initial_state =
          Inr (on_tick_decision cfg4 market_a initial_state (Fin (3 / 2))
                 (order_amount_usd cfg4 / 2000) (order_amount_usd cfg4 / 40000)
                 (2000 * dec_099) (40000 * dec_099))"
    using on_tick_reaches_decision [OF market_a_ready market_a_frame, of 2000 40000 2000 40000 initial_state]
    by (simp add: market_a_def)
  then show ?thesis
    by (simp add: on_tick_decision_def cfg4_def StatArb_config_def initial_state_def market_a_def)
qed

lemma tick_market_a_flat:
  "tick cfg4 market_a initial_state =
     Inr (open_state,
          [market_order cfg4 BUY ''ETH-USDT'' (1 / 10) (2000 * dec_099) OPEN,
           market_order cfg4 SELL ''BTC-USDT'' (1 / 200) (40000 * dec_099) OPEN])"
proof -
  have "run_effects initial_state
          [ Submit (market_order cfg4 BUY ''ETH-USDT'' (1 / 10) (2000 * dec_099) OPEN),
            Set_long_order_id (Some ''buy-1''),
            Submit (market_order cfg4 SELL ''BTC-USDT'' (1 / 200) (40000 * dec_099) OPEN),
            Set_short_order_id (Some ''sell-1''),
            Set_position_open True ] = open_state"
    by (simp add: run_effects_def initial_state_def open_state_def)
  then show ?thesis
    by (simp add: tick_def on_tick_market_a_flat)
qed

lemma reachable_initial: "reachable cfg env initial_state"
  by (rule reachable.constructed) (simp add: StatArb_init_def)

lemma reachable_open_state:
  assumes "env market_a"
  shows "reachable cfg4 env open_state"
  using reachable_initial [of cfg4 env] assms tick_market_a_flat
  by (rule reachable.ticked)

text \<open>
  The theorem at the first tick of the four-candle market: the instance is FLAT, the
  tick submits the two opening orders and the flag is set afterwards.
\<close>

theorem one_position_at_a_time_witness:
  "reachable cfg4 any_market initial_state
   \<and> on_tick cfg4 market_a initial_state =
       Inr [ Submit (market_order cfg4 BUY ''ETH-USDT'' (1 / 10) (2000 * dec_099) OPEN),
             Set_long_order_id (Some ''buy-1''),
             Submit (market_order cfg4 SELL ''BTC-USDT'' (1 / 200) (40000 * dec_099) OPEN),
             Set_short_order_id (Some ''sell-1''),
             Set_position_open True ]
   \<and> \<not> position_open initial_state
   \<and> position_open (run_effects initial_state
        [ Submit (market_order cfg4 BUY ''ETH-USDT'' (1 / 10) (2000 * dec_099) OPEN),
          Set_long_order_id (Some ''buy-1''),
          Submit (market_order cfg4 SELL ''BTC-USDT'' (1 / 200) (40000 * dec_099) OPEN),
          Set_short_order_id (Some ''sell-1''),
          Set_position_open True ])"
proof -
  let ?fx = "[ Submit (market_order cfg4 BUY ''ETH-USDT'' (1 / 10) (2000 * dec_099) OPEN),
             Set_long_order_id (Some ''buy-1''),
             Submit (market_order cfg4 SELL ''BTC-USDT'' (1 / 200) (40000 * dec_099) OPEN),
             Set_short_order_id (Some ''sell-1''),
             Set_position_open True ]"
  have start: "reachable cfg4 any_market initial_state"
    by (rule reachable_initial)
  have run: "on_tick cfg4 market_a initial_state = Inr ?fx"
    by (rule on_tick_market_a_flat)
  have opens: "\<exists>ord \<in> set (submitted ?fx). action ord = OPEN"
    by (simp add: market_order_def)
  from one_position_at_a_time [OF start run] opens
  have "\<not> position_open initial_state \<and> position_open (run_effects initial_state ?fx)"
    by blast
  with start run show ?thesis
    by blast
qed


lemma length_rolling_windows: "length (rolling_windows w xs) = length xs"
  by (simp add: rolling_windows_def)

lemma length_calculate:
  assumes "calculate_spread_and_zscore cfg df1 df2 = Some df"
  shows "length df = length (pd_merge df1 df2)"
  using assms
  by (auto simp add: calculate_spread_and_zscore_def z_score_column_def Let_def rolling_mean_def rolling_std_def
      length_rolling_windows split: if_splits)

lemma calculate_nonempty:
  assumes "calculate_spread_and_zscore cfg df1 df2 = Some df" and "0 < spread_length cfg"
  shows "df \<noteq> []"
proof -
  have "spread_length cfg \<le> length (pd_merge df1 df2)"
    using assms(1) by (simp add: calculate_spread_and_zscore_def z_score_column_def Let_def split: if_splits)
  with length_calculate [OF assms(1)] assms(2) show ?thesis
    by auto
qed

lemma decision_nan: "on_tick_decision cfg m s NaN a1 a2 p1 p2 = []"
  by (simp add: on_tick_decision_def)

lemma tick_of_no_effect:
  assumes "on_tick cfg m s = Inr []"
  shows "tick cfg m s = Inr (s, [])"
  using assms by (simp add: tick_def run_effects_def)

text \<open>
  The recoverable conditions that the code handles. With a positive \<open>spread_length\<close>, a
  tick does nothing (no effect at all: no order, no assignment, normal return) when the
  frame is not ready, or a conversion rate is missing, or the last z-score is
  not-a-number while both conversion rates are present and not zero and both mid prices
  are present.
\<close>

lemma quiet_cycle:
  assumes "0 < spread_length cfg"
    and "calculate_spread_and_zscore cfg (candles_1_df m) (candles_2_df m) = None
         \<or> pair_rate_1 m = None \<or> pair_rate_2 m = None
         \<or> ((\<exists>df. calculate_spread_and_zscore cfg (candles_1_df m) (candles_2_df m) = Some df
                  \<and> z_score (last df) = NaN)
             \<and> pair_rate_1 m \<noteq> Some 0 \<and> pair_rate_2 m \<noteq> Some 0
             \<and> mid_price_1 m \<noteq> None \<and> mid_price_2 m \<noteq> None)"
  shows "on_tick cfg m s = Inr [] \<and> tick cfg m s = Inr (s, [])"
proof -
  have "on_tick cfg m s = Inr []"
  proof (cases "calculate_spread_and_zscore cfg (candles_1_df m) (candles_2_df m)")
    case None
    then show ?thesis by (simp add: on_tick_def)
  next
    case (Some df)
    have ne: "df \<noteq> []"
      by (rule calculate_nonempty [OF Some assms(1)])
    have last: "iloc_last (map z_score df) = Inr (z_score (last df))"
      using ne by (simp add: iloc_last_def last_map)
    show ?thesis
    proof (cases "pair_rate_1 m = None \<or> pair_rate_2 m = None")
      case True
      then show ?thesis
        by (auto simp add: on_tick_def Some last split: option.splits)
    next
      case False
      with assms(2) Some have nan: "z_score (last df) = NaN"
        and rates: "pair_rate_1 m \<noteq> Some 0" "pair_rate_2 m \<noteq> Some 0"
        and mids: "mid_price_1 m \<noteq> None" "mid_price_2 m \<noteq> None"
        by auto
      from False rates mids show ?thesis
        by (auto simp add: on_tick_def Some last nan dec_div_def discounted_def decision_nan
            split: option.splits)
    qed
  qed
  then show ?thesis
    by (simp add: tick_of_no_effect)
qed

lemma market_flat_frame:
  "calculate_spread_and_zscore cfg4 frame_flat frame_flat = Some
  [\<lparr>timestamp = 0, close_1 = 5, close_2 = 5, spread = 7 / 2, z_score = NaN\<rparr>,
   \<lparr>timestamp = 60, close_1 = 5, close_2 = 5, spread = 7 / 2, z_score = NaN\<rparr>,
   \<lparr>timestamp = 120, close_1 = 5, close_2 = 5, spread = 7 / 2, z_score = NaN\<rparr>,
   \<lparr>timestamp = 180, close_1 = 5, close_2 = 5, spread = 7 / 2, z_score = NaN\<rparr>]"
proof -
  have "pd_merge frame_flat frame_flat = [(0,5,5),(60,5,5),(120,5,5),(180,5,5)]"
    by (simp add: pd_merge_def frame_flat_def)
  then show ?thesis
    by (simp add: calculate_spread_and_zscore_def z_score_column_def cfg4_def StatArb_config_def rolling_mean_def
        rolling_std_def rolling_windows_def upt_4 window_mean_def window_var_def)
qed

lemma market_short_frame:
  "calculate_spread_and_zscore cfg4 (butlast frame_a) frame_b = None"
  by (simp add: calculate_spread_and_zscore_def z_score_column_def cfg4_def pd_merge_def frame_a_def frame_b_def)

text \<open>
  Three such markets, each with an open position: a frame one row short, a missing
  conversion rate, and constant closes (z-score not-a-number).
\<close>

lemma quiet_cycle_examples:
  "tick cfg4 market_short open_state = Inr (open_state, [])
   \<and> pair_rate_2 market_no_rate = None
   \<and> tick cfg4 market_no_rate open_state = Inr (open_state, [])
   \<and> tick cfg4 market_flat open_state = Inr (open_state, [])"
proof -
  have len: "0 < spread_length cfg4"
    by (simp add: cfg4_def)
  have short: "calculate_spread_and_zscore cfg4 (candles_1_df market_short) (candles_2_df market_short) = None"
    by (simp add: market_short_def market_a_def market_short_frame)
  have norate: "pair_rate_2 market_no_rate = None"
    by (simp add: market_no_rate_def)
  have flat: "(\<exists>df. calculate_spread_and_zscore cfg4 (candles_1_df market_flat) (candles_2_df market_flat) = Some df
                  \<and> z_score (last df) = NaN)
             \<and> pair_rate_1 market_flat \<noteq> Some 0 \<and> pair_rate_2 market_flat \<noteq> Some 0
             \<and> mid_price_1 market_flat \<noteq> None \<and> mid_price_2 market_flat \<noteq> None"
    by (simp add: market_flat_def market_a_def market_flat_frame)
  show ?thesis
    using quiet_cycle [OF len, of market_short open_state] short
      quiet_cycle [OF len, of market_no_rate open_state] norate
      quiet_cycle [OF len, of market_flat open_state] flat
    by blast
qed

lemma on_tick_market_no_mid:
  "on_tick cfg4 market_no_mid initial_state = Inl TypeError"
  using market_a_ready market_a_frame
  by (simp add: on_tick_def market_no_mid_def all_candles_ready_def iloc_last_def dec_div_def
      discounted_def cfg4_def StatArb_config_def market_a_def)

text \<open>
  Claim C8 asks that a missing mid price, like a missing conversion rate, ends the tick
  quietly. The code tests the two conversion rates (lines 58 to 61) and has no such
  test for the two mid prices (lines 65 and 66): with both conversion rates present and
  the mid price of pair 1 missing, \<open>None * Decimal(0.99)\<close> raises \<open>TypeError\<close> and the
  exception leaves \<open>on_tick\<close>.
\<close>

theorem missing_mid_price_raises:
  "mid_price_1 market_no_mid = None
   \<and> pair_rate_1 market_no_mid \<noteq> None \<and> pair_rate_2 market_no_mid \<noteq> None
   \<and> on_tick cfg4 market_no_mid initial_state = Inl TypeError
   \<and> tick cfg4 market_no_mid initial_state = Inl TypeError"
  by (simp add: tick_def on_tick_market_no_mid) (simp add: market_no_mid_def market_a_def)

text \<open>
  Claim C9 as stated fails: with the exit threshold 1 above the entry threshold 0,
  construction returns the initial instance, and the first tick trades.
\<close>

theorem malformed_thresholds_accepted:
  "exit_threshold cfg_malformed \<ge> entry_threshold cfg_malformed
   \<and> StatArb_init cfg_malformed = Inr initial_state
   \<and> tick cfg_malformed market_a initial_state =
       Inr (open_state,
            [market_order cfg_malformed BUY ''ETH-USDT'' (1 / 10) (2000 * dec_099) OPEN,
             market_order cfg_malformed SELL ''BTC-USDT'' (1 / 200) (40000 * dec_099) OPEN])"
proof -
  have frame: "calculate_spread_and_zscore cfg_malformed (candles_1_df market_a) (candles_2_df market_a)
     = calculate_spread_and_zscore cfg4 (candles_1_df market_a) (candles_2_df market_a)"
    by (simp add: calculate_spread_and_zscore_def z_score_column_def cfg_malformed_def Let_def)
  have "on_tick cfg_malformed market_a initial_state =
          Inr (on_tick_decision cfg_malformed market_a initial_state (Fin (3 / 2))
                 (order_amount_usd cfg_malformed / 2000) (order_amount_usd cfg_malformed / 40000)
                 (2000 * dec_099) (40000 * dec_099))"
    using on_tick_reaches_decision [OF market_a_ready market_a_frame [folded frame],
        of 2000 40000 2000 40000 initial_state]
    by (simp add: market_a_def)
  then have "tick cfg_malformed market_a initial_state =
       Inr (open_state,
            [market_order cfg_malformed BUY ''ETH-USDT'' (1 / 10) (2000 * dec_099) OPEN,
             market_order cfg_malformed SELL ''BTC-USDT'' (1 / 200) (40000 * dec_099) OPEN])"
    by (simp add: tick_def)
       (simp add: on_tick_decision_def cfg_malformed_def cfg4_def StatArb_config_def
          initial_state_def open_state_def market_a_def run_effects_def market_order_def)
  then show ?thesis
    by (simp add: StatArb_init_def) (simp add: cfg_malformed_def)
qed

lemma on_tick_failure:
  assumes "on_tick cfg m s = Inl e"
  shows "(e = IndexError \<and> spread_length cfg = 0)
       \<or> ((e = DivisionByZero \<or> e = InvalidOperation)
           \<and> (pair_rate_1 m = Some 0 \<or> pair_rate_2 m = Some 0))
       \<or> (e = TypeError \<and> (mid_price_1 m = None \<or> mid_price_2 m = None))"
proof (cases "calculate_spread_and_zscore cfg (candles_1_df m) (candles_2_df m)")
  case None
  with assms show ?thesis
    by (simp add: on_tick_def split: if_splits)
next
  case (Some df)
  show ?thesis
  proof (cases "spread_length cfg = 0")
    case True
    with assms Some show ?thesis
      by (auto simp add: on_tick_def iloc_last_def dec_div_def discounted_def
          split: if_splits option.splits sum.splits)
  next
    case False
    then have "df \<noteq> []"
      using calculate_nonempty [OF Some] by simp
    with assms Some show ?thesis
      by (auto simp add: on_tick_def iloc_last_def dec_div_def discounted_def
          split: if_splits option.splits sum.splits)
  qed
qed

lemma on_tick_failure_thresholds:
  "(on_tick (cfg\<lparr>entry_threshold := a, exit_threshold := b, sl_threshold := c\<rparr>) m s' = Inl e)
     = (on_tick cfg m s = Inl e)"
proof -
  have "calculate_spread_and_zscore (cfg\<lparr>entry_threshold := a, exit_threshold := b, sl_threshold := c\<rparr>)
          (candles_1_df m) (candles_2_df m)
        = calculate_spread_and_zscore cfg (candles_1_df m) (candles_2_df m)"
    by (simp add: calculate_spread_and_zscore_def z_score_column_def Let_def)
  then show ?thesis
    by (simp add: on_tick_def split: option.splits sum.splits)
qed

text \<open>
  Claim C9, amended. Construction validates nothing: for every configuration it returns
  the initial instance (flag unset, no order reference). The thresholds written in the
  class are in order. The decision never fails on the thresholds: when a tick raises,
  the cause is the market data (an empty frame, which needs \<open>spread_length = 0\<close>; a zero
  conversion rate; a missing mid price), and whether it raises does not depend on the
  three thresholds nor on the instance.
\<close>

theorem construction_without_validation:
  "StatArb_init cfg = Inr initial_state
   \<and> (exit_threshold StatArb_config < entry_threshold StatArb_config
      \<and> entry_threshold StatArb_config < sl_threshold StatArb_config)
   \<and> (on_tick cfg m s = Inl e \<longrightarrow>
        (e = IndexError \<and> spread_length cfg = 0)
        \<or> ((e = DivisionByZero \<or> e = InvalidOperation)
            \<and> (pair_rate_1 m = Some 0 \<or> pair_rate_2 m = Some 0))
        \<or> (e = TypeError \<and> (mid_price_1 m = None \<or> mid_price_2 m = None)))
   \<and> ((on_tick (cfg\<lparr>entry_threshold := a, exit_threshold := b, sl_threshold := c\<rparr>) m s' = Inl e)
        = (on_tick cfg m s = Inl e))"
  using on_tick_failure [of cfg m s e] on_tick_failure_thresholds [where cfg = cfg and a = a and b = b and c = c and m = m and s' = s' and e = e and s = s]
  by (simp add: StatArb_init_def StatArb_config_def)


text \<open>
  The theorem at a tick that raises: the mid price of pair 1 is missing.
\<close>

theorem construction_without_validation_witness:
  "on_tick cfg4 market_no_mid initial_state = Inl TypeError
   \<and> mid_price_1 market_no_mid = None
   \<and> StatArb_init cfg4 = Inr initial_state"
proof -
  have "pair_rate_1 market_no_mid \<noteq> Some 0 \<and> pair_rate_2 market_no_mid \<noteq> Some 0
        \<and> mid_price_2 market_no_mid \<noteq> None"
    by (simp add: market_no_mid_def market_a_def)
  with construction_without_validation [of cfg4 market_no_mid initial_state TypeError]
    on_tick_market_no_mid
  show ?thesis
    by simp
qed

lemma run_effects_opening:
  "run_effects s [Submit o1, Set_long_order_id r1, Submit o2, Set_short_order_id r2, Set_position_open True]
     = \<lparr>position_open = True, long_order_id = r1, short_order_id = r2\<rparr>"
  by (simp add: run_effects_def)

lemma run_effects_closing:
  "run_effects s ((if c1 then [Submit o1] else []) @ (if c2 then [Submit o2] else [])
      @ [Set_position_open False]) = s\<lparr>position_open := False\<rparr>"
  by (simp add: run_effects_def)

lemma open_implies_truthy:
  assumes "reachable cfg refs_truthy s" and "position_open s"
  shows "truthy (long_order_id s) \<and> truthy (short_order_id s)"
  using assms
proof (induction rule: reachable.induct)
  case (constructed s)
  then show ?case
    by (auto simp add: StatArb_init_def initial_state_def)
next
  case (ticked s m s' ords)
  from ticked.hyps(3) obtain fx where fx: "on_tick cfg m s = Inr fx" and s': "s' = run_effects s fx"
    by (auto simp add: tick_def split: sum.splits)
  from on_tick_effects [OF fx] show ?case
  proof (elim disjE conjE exE)
    assume "fx = []"
    with s' ticked.prems ticked.IH show ?thesis
      by (simp add: run_effects_def)
  next
    fix a1 a2 p1 p2
    assume "fx = [ Submit (market_order cfg BUY (trading_pair_1 cfg) a1 p1 OPEN),
          Set_long_order_id (buy_returns m),
          Submit (market_order cfg SELL (trading_pair_2 cfg) a2 p2 OPEN),
          Set_short_order_id (sell_returns m),
          Set_position_open True ]"
    with s' ticked.hyps(2) show ?thesis
      by (simp add: run_effects_opening refs_truthy_def)
  next
    fix a1 a2 p1 p2
    assume "fx = (if truthy (long_order_id s)
         then [Submit (market_order cfg BUY (trading_pair_1 cfg) a1 p1 CLOSE)] else [])
        @ (if truthy (short_order_id s)
           then [Submit (market_order cfg SELL (trading_pair_2 cfg) a2 p2 CLOSE)] else [])
        @ [Set_position_open False]"
    with s' ticked.prems show ?thesis
      by (simp add: run_effects_closing)
  qed
qed

text \<open>
  Claim C10, amended. When every \<open>buy\<close> and \<open>sell\<close> returns a truthy reference (neither
  \<open>None\<close> nor the empty string), every reachable instance with the flag set holds two
  truthy references. In any tick from it: the flag is set only as the last effect of a
  tick that has first assigned both references from its own two opening orders; the
  references are assigned in no other tick; and a tick that clears the flag submits
  both closing orders, the buy on pair 1 and the sell on pair 2.
\<close>

theorem open_legs_recorded:
  assumes "reachable cfg refs_truthy s"
  shows "(position_open s \<longrightarrow> truthy (long_order_id s) \<and> truthy (short_order_id s))
     \<and> (on_tick cfg m s = Inr fx \<longrightarrow>
          (Set_position_open True \<in> set fx \<longrightarrow>
             (\<exists>o1 o2. fx = [Submit o1, Set_long_order_id (buy_returns m),
                            Submit o2, Set_short_order_id (sell_returns m),
                            Set_position_open True]))
        \<and> ((\<exists>r. Set_long_order_id r \<in> set fx \<or> Set_short_order_id r \<in> set fx) \<longrightarrow>
             Set_position_open True \<in> set fx)
        \<and> (Set_position_open False \<in> set fx \<longrightarrow>
             (\<exists>a1 a2 p1 p2. submitted fx =
                [market_order cfg BUY (trading_pair_1 cfg) a1 p1 CLOSE,
                 market_order cfg SELL (trading_pair_2 cfg) a2 p2 CLOSE])))"
proof (intro conjI impI)
  assume "position_open s"
  with open_implies_truthy [OF assms] show "truthy (long_order_id s)" and "truthy (short_order_id s)"
    by simp_all
next
  assume run: "on_tick cfg m s = Inr fx" and "Set_position_open True \<in> set fx"
  with on_tick_effects [OF run]
  show "\<exists>o1 o2. fx = [Submit o1, Set_long_order_id (buy_returns m),
                            Submit o2, Set_short_order_id (sell_returns m),
                            Set_position_open True]"
    by (auto split: if_splits)
next
  assume run: "on_tick cfg m s = Inr fx"
    and "\<exists>r. Set_long_order_id r \<in> set fx \<or> Set_short_order_id r \<in> set fx"
  with on_tick_effects [OF run]
  show "Set_position_open True \<in> set fx"
    by (auto split: if_splits)
next
  assume run: "on_tick cfg m s = Inr fx" and closing: "Set_position_open False \<in> set fx"
  from on_tick_effects [OF run] closing have "position_open s"
    by (auto split: if_splits)
  with open_implies_truthy [OF assms]
  have refs: "truthy (long_order_id s)" "truthy (short_order_id s)"
    by simp_all
  from on_tick_effects [OF run] closing refs
  show "\<exists>a1 a2 p1 p2. submitted fx =
                [market_order cfg BUY (trading_pair_1 cfg) a1 p1 CLOSE,
                 market_order cfg SELL (trading_pair_2 cfg) a2 p2 CLOSE]"
    by (auto split: if_splits) blast+
qed


lemma on_tick_four_candles:
  assumes "all_candles_ready m"
    and "candles_1_df m = frame_a" and "candles_2_df m = frame_b"
    and "pair_rate_1 m = Some 2000" and "pair_rate_2 m = Some 40000"
    and "mid_price_1 m = Some 2000" and "mid_price_2 m = Some 40000"
    and "decimal_context m = (\<lambda>x. x)"
  shows "on_tick cfg4 m s =
     Inr (on_tick_decision cfg4 m s (Fin (3 / 2))
            (1 / 10) (1 / 200) (2000 * dec_099) (40000 * dec_099))"
proof -
  have frame: "calculate_spread_and_zscore cfg4 (candles_1_df m) (candles_2_df m) = Some
    [\<lparr>timestamp = 0, close_1 = 0, close_2 = 0, spread = 0, z_score = NaN\<rparr>,
     \<lparr>timestamp = 60, close_1 = 0, close_2 = 0, spread = 0, z_score = NaN\<rparr>,
     \<lparr>timestamp = 120, close_1 = 0, close_2 = 0, spread = 0, z_score = NaN\<rparr>,
     \<lparr>timestamp = 180, close_1 = 2, close_2 = 0, spread = 2, z_score = Fin (3/2)\<rparr>]"
    using calculate_a_b assms(2,3) by simp
  have "order_amount_usd cfg4 = 200"
    by (simp add: cfg4_def StatArb_config_def)
  with on_tick_reaches_decision [OF assms(1) frame _ assms(4) _ assms(5) _ assms(6,7), of s]
  show ?thesis
    by (simp add: assms(8))
qed

lemma on_tick_market_a_open:
  "on_tick cfg4 market_a open_state =
     Inr [ Submit (market_order cfg4 BUY ''ETH-USDT'' (1 / 10) (2000 * dec_099) CLOSE),
           Submit (market_order cfg4 SELL ''BTC-USDT'' (1 / 200) (40000 * dec_099) CLOSE),
           Set_position_open False ]"
proof -
  have "on_tick cfg4 market_a open_state =
     Inr (on_tick_decision cfg4 market_a open_state (Fin (3 / 2))
            (1 / 10) (1 / 200) (2000 * dec_099) (40000 * dec_099))"
    by (rule on_tick_four_candles [OF market_a_ready]) (simp_all add: market_a_def)
  then show ?thesis
    by (simp add: on_tick_decision_def cfg4_def StatArb_config_def open_state_def truthy_def)
qed

lemma on_tick_market_empty_refs:
  "on_tick cfg4 market_empty_refs s =
     Inr (on_tick_decision cfg4 market_empty_refs s (Fin (3 / 2))
            (1 / 10) (1 / 200) (2000 * dec_099) (40000 * dec_099))"
  by (rule on_tick_four_candles)
     (simp_all add: market_empty_refs_def market_a_def all_candles_ready_def)

text \<open>
  The theorem at the instance reached by one opening tick of the four-candle market: the
  next tick closes with both legs.
\<close>

theorem open_legs_recorded_witness:
  "reachable cfg4 refs_truthy open_state
   \<and> position_open open_state
   \<and> truthy (long_order_id open_state) \<and> truthy (short_order_id open_state)
   \<and> on_tick cfg4 market_a open_state =
       Inr [ Submit (market_order cfg4 BUY ''ETH-USDT'' (1 / 10) (2000 * dec_099) CLOSE),
             Submit (market_order cfg4 SELL ''BTC-USDT'' (1 / 200) (40000 * dec_099) CLOSE),
             Set_position_open False ]"
proof -
  have env: "refs_truthy market_a"
    by (simp add: refs_truthy_def market_a_def truthy_def)
  have reach: "reachable cfg4 refs_truthy open_state"
    using env by (rule reachable_open_state)
  have opn: "position_open open_state"
    by (simp add: open_state_def)
  from open_legs_recorded [OF reach] opn
  have "truthy (long_order_id open_state) \<and> truthy (short_order_id open_state)"
    by blast
  with reach opn on_tick_market_a_open show ?thesis
    by blast
qed

text \<open>
  Claim C10 as stated fails on non-null references that are empty strings: the instance
  is reached with the flag set, the closing tick clears the flag, and neither closing
  order is submitted, since \<open>if self.long_order_id:\<close> is false on the empty string.
\<close>

theorem empty_reference_skips_close:
  "refs_non_null market_empty_refs
   \<and> reachable cfg4 refs_non_null open_state_empty_refs
   \<and> position_open open_state_empty_refs
   \<and> tick cfg4 market_empty_refs open_state_empty_refs =
       Inr (open_state_empty_refs\<lparr>position_open := False\<rparr>, [])"
proof -
  have env: "refs_non_null market_empty_refs"
    by (simp add: refs_non_null_def market_empty_refs_def)
  have "tick cfg4 market_empty_refs initial_state =
     Inr (open_state_empty_refs,
          [market_order cfg4 BUY ''ETH-USDT'' (1 / 10) (2000 * dec_099) OPEN,
           market_order cfg4 SELL ''BTC-USDT'' (1 / 200) (40000 * dec_099) OPEN])"
    by (simp add: tick_def on_tick_market_empty_refs)
       (simp add: on_tick_decision_def cfg4_def StatArb_config_def initial_state_def
          open_state_empty_refs_def run_effects_def market_empty_refs_def)
  with reachable_initial [of cfg4 refs_non_null] env
  have reach: "reachable cfg4 refs_non_null open_state_empty_refs"
    by (rule reachable.ticked)
  have "tick cfg4 market_empty_refs open_state_empty_refs =
       Inr (open_state_empty_refs\<lparr>position_open := False\<rparr>, [])"
    by (simp add: tick_def on_tick_market_empty_refs)
       (simp add: on_tick_decision_def cfg4_def StatArb_config_def
          open_state_empty_refs_def run_effects_def truthy_def)
  with env reach show ?thesis
    by (simp add: open_state_empty_refs_def)
qed

section \<open>The frame: spread, rolling statistics and z-score\<close>







lemma length_rolling_mean: "length (rolling_mean w xs) = length xs"
  by (simp add: rolling_mean_def length_rolling_windows)

lemma length_rolling_std: "length (rolling_std w xs) = length xs"
  by (simp add: rolling_std_def length_rolling_windows)

lemma calculate_nth:
  assumes "calculate_spread_and_zscore cfg df1 df2 = Some rows" and "i < length rows"
  shows "rows ! i =
    (case pd_merge df1 df2 ! i of (t, c1, c2) \<Rightarrow>
      \<lparr> timestamp = t, close_1 = c1, close_2 = c2, spread = c1 - c2 * hedge_ratio cfg,
        z_score = fdiv
          (fsub (Fin (c1 - c2 * hedge_ratio cfg))
            (rolling_mean (zscore_length cfg)
               (map (\<lambda>(t, c1, c2). c1 - c2 * hedge_ratio cfg) (pd_merge df1 df2)) ! i))
          (rolling_std (zscore_length cfg)
             (map (\<lambda>(t, c1, c2). c1 - c2 * hedge_ratio cfg) (pd_merge df1 df2)) ! i) \<rparr>)"
proof -
  have len: "i < length (pd_merge df1 df2)"
    using assms length_calculate [OF assms(1)] by simp
  from assms(1) have "rows =
     (let df = pd_merge df1 df2;
          spreads = map (\<lambda>(t, c1, c2). c1 - c2 * hedge_ratio cfg) df;
          means = rolling_mean (zscore_length cfg) spreads;
          stds = rolling_std (zscore_length cfg) spreads;
          zs = map (\<lambda>(x, mu, sd). fdiv (fsub (Fin x) mu) sd) (zip spreads (zip means stds))
      in map (\<lambda>((t, c1, c2), x, z).
                   \<lparr> timestamp = t, close_1 = c1, close_2 = c2, spread = x, z_score = z \<rparr>)
                 (zip df (zip spreads zs)))"
    by (simp add: calculate_spread_and_zscore_def z_score_column_def Let_def split: if_splits)
  with len show ?thesis
    by (simp add: Let_def length_rolling_mean length_rolling_std split: prod.splits)
qed

lemma calculate_spreads:
  assumes "calculate_spread_and_zscore cfg df1 df2 = Some rows"
  shows "map spread rows = map (\<lambda>(t, c1, c2). c1 - c2 * hedge_ratio cfg) (pd_merge df1 df2)"
proof (rule nth_equalityI)
  show "length (map spread rows) = length (map (\<lambda>(t, c1, c2). c1 - c2 * hedge_ratio cfg) (pd_merge df1 df2))"
    using length_calculate [OF assms] by simp
next
  fix i assume "i < length (map spread rows)"
  then have i: "i < length rows" by simp
  then have "i < length (pd_merge df1 df2)"
    using length_calculate [OF assms] by simp
  with calculate_nth [OF assms i] i
  show "map spread rows ! i = map (\<lambda>(t, c1, c2). c1 - c2 * hedge_ratio cfg) (pd_merge df1 df2) ! i"
    by (simp split: prod.splits)
qed

lemma calculate_z_score:
  assumes "calculate_spread_and_zscore cfg df1 df2 = Some rows" and "i < length rows"
  shows "z_score (rows ! i) =
     fdiv (fsub (Fin (spread (rows ! i))) (rolling_mean (zscore_length cfg) (map spread rows) ! i))
       (rolling_std (zscore_length cfg) (map spread rows) ! i)"
  using calculate_nth [OF assms]
  by (simp add: calculate_spreads [OF assms(1)] split: prod.splits)







lemma fdiv_NaN_right: "fdiv a NaN = NaN"
  by (cases a) simp_all

lemma fsub_NaN_right: "fsub a NaN = NaN"
  by (cases a) simp_all

lemma fdiv_zero_not_finite: "fdiv a (Fin 0) \<noteq> Fin x"
  by (cases a) simp_all













lemma calculate_flat: "calculate_spread_and_zscore cfg4 frame_flat frame_flat = Some frame_flat_rows"
  by (simp add: market_flat_frame frame_flat_rows_def)

lemma z_score_column_nth:
  assumes "i < length spreads" and "length means = length spreads"
    and "length stds = length spreads"
  shows "z_score_column spreads means stds ! i =
           fdiv (fsub (Fin (spreads ! i)) (means ! i)) (stds ! i)"
  using assms by (simp add: z_score_column_def)

lemma calculate_column:
  assumes "calculate_spread_and_zscore cfg df1 df2 = Some rows"
  shows "map z_score rows =
           z_score_column (map spread rows)
             (rolling_mean (zscore_length cfg) (map spread rows))
             (rolling_std (zscore_length cfg) (map spread rows))"
proof (rule nth_equalityI)
  show "length (map z_score rows) =
          length (z_score_column (map spread rows)
             (rolling_mean (zscore_length cfg) (map spread rows))
             (rolling_std (zscore_length cfg) (map spread rows)))"
    by (simp add: z_score_column_def length_rolling_mean length_rolling_std)
next
  fix i assume "i < length (map z_score rows)"
  then have i: "i < length rows"
    by simp
  then show "map z_score rows ! i =
          z_score_column (map spread rows)
             (rolling_mean (zscore_length cfg) (map spread rows))
             (rolling_std (zscore_length cfg) (map spread rows)) ! i"
    by (simp add: calculate_z_score [OF assms i] z_score_column_nth length_rolling_mean
        length_rolling_std)
qed

text \<open>
  Claim C6 as stated fails. For the spreads 0, 0, 0, 1e-200 and a window of four,
  float64 gives the rolling mean 2.5e-201 and, the squared deviations underflowing to
  zero, the rolling deviation 0.0 in the last row. Line 167 divides the numerator
  7.5e-201 by that zero: the z-score of the row is plus infinity, which is not null, and
  the decision reads it as a z-score above the entry threshold: with a position open
  it clears the flag.
\<close>

theorem zero_deviation_gives_infinity:
  "z_score_column [0, 0, 0, 1 / 10 ^ 200]
      [NaN, NaN, NaN, Fin (25 / 10 ^ 202)] [NaN, NaN, NaN, Fin 0]
     = [NaN, NaN, NaN, PInf]
   \<and> PInf \<noteq> NaN
   \<and> flag_writes (on_tick_decision StatArb_config market_a open_state PInf 1 1 1 1) = [False]"
  by (simp add: z_score_column_def on_tick_decision_def StatArb_config_def open_state_def)

text \<open>
  Claim C6, amended. The z-score column of a returned frame is the element-wise float
  quotient of line 167, and for any three columns of equal length and any row: a
  not-a-number (null) deviation gives a not-a-number z-score; a zero deviation is
  divided by all the same and gives not-a-number when the numerator \<open>spread - mean\<close> is
  zero or not-a-number, plus infinity when it is positive and minus infinity when it is
  negative, never a finite number.
\<close>

theorem unguarded_division:
  assumes "calculate_spread_and_zscore cfg df1 df2 = Some rows"
  shows "map z_score rows =
           z_score_column (map spread rows)
             (rolling_mean (zscore_length cfg) (map spread rows))
             (rolling_std (zscore_length cfg) (map spread rows))
     \<and> (\<forall>spreads means stds i.
           i < length spreads \<and> length means = length spreads \<and> length stds = length spreads
           \<longrightarrow>
             (stds ! i = NaN \<longrightarrow> z_score_column spreads means stds ! i = NaN)
           \<and> (stds ! i = Fin 0 \<longrightarrow>
                (means ! i = NaN \<longrightarrow> z_score_column spreads means stds ! i = NaN)
              \<and> (\<forall>mu. means ! i = Fin mu \<longrightarrow>
                    z_score_column spreads means stds ! i =
                      (if spreads ! i = mu then NaN
                       else if mu < spreads ! i then PInf else NInf))
              \<and> (\<forall>v. z_score_column spreads means stds ! i \<noteq> Fin v)))"
proof (intro conjI allI impI)
  show "map z_score rows =
           z_score_column (map spread rows)
             (rolling_mean (zscore_length cfg) (map spread rows))
             (rolling_std (zscore_length cfg) (map spread rows))"
    by (rule calculate_column [OF assms])
next
  fix spreads :: "real list" and means stds :: "pyfloat list" and i
  assume "i < length spreads \<and> length means = length spreads \<and> length stds = length spreads"
  then have z: "z_score_column spreads means stds ! i =
           fdiv (fsub (Fin (spreads ! i)) (means ! i)) (stds ! i)"
    by (simp add: z_score_column_nth)
  {
    assume "stds ! i = NaN"
    then show "z_score_column spreads means stds ! i = NaN"
      by (simp add: z fdiv_NaN_right)
  }
  {
    assume "stds ! i = Fin 0" and "means ! i = NaN"
    then show "z_score_column spreads means stds ! i = NaN"
      by (simp add: z)
  }
  {
    fix mu
    assume "stds ! i = Fin 0" and "means ! i = Fin mu"
    then show "z_score_column spreads means stds ! i =
                      (if spreads ! i = mu then NaN
                       else if mu < spreads ! i then PInf else NInf)"
      by (simp add: z)
  }
  {
    fix v
    assume "stds ! i = Fin 0"
    then show "z_score_column spreads means stds ! i \<noteq> Fin v"
      by (simp add: z fdiv_zero_not_finite)
  }
qed

text \<open>
  The theorem at the constant closes: the last row has rolling deviation zero, its
  numerator is zero and its z-score is not-a-number.
\<close>

theorem unguarded_division_witness:
  "calculate_spread_and_zscore cfg4 frame_flat frame_flat = Some frame_flat_rows
   \<and> rolling_std (zscore_length cfg4) (map spread frame_flat_rows) ! 3 = Fin 0
   \<and> rolling_mean (zscore_length cfg4) (map spread frame_flat_rows) ! 3 = Fin (7 / 2)
   \<and> map spread frame_flat_rows ! 3 = 7 / 2
   \<and> map z_score frame_flat_rows ! 3 = NaN"
proof -
  let ?xs = "map spread frame_flat_rows"
  let ?mu = "rolling_mean (zscore_length cfg4) ?xs"
  let ?sd = "rolling_std (zscore_length cfg4) ?xs"
  have sd: "?sd ! 3 = Fin 0"
    by (simp add: frame_flat_rows_def cfg4_def rolling_std_def rolling_windows_def upt_4
        window_var_def window_mean_def)
  have mu: "?mu ! 3 = Fin (7 / 2)"
    by (simp add: frame_flat_rows_def cfg4_def rolling_mean_def rolling_windows_def upt_4
        window_mean_def)
  have x: "?xs ! 3 = 7 / 2"
    by (simp add: frame_flat_rows_def)
  have len: "3 < length ?xs \<and> length ?mu = length ?xs \<and> length ?sd = length ?xs"
    by (simp add: length_rolling_mean length_rolling_std) (simp add: frame_flat_rows_def)
  from unguarded_division [OF calculate_flat]
  have col: "map z_score frame_flat_rows = z_score_column ?xs ?mu ?sd"
    and zero: "3 < length ?xs \<and> length ?mu = length ?xs \<and> length ?sd = length ?xs \<longrightarrow>
         (?sd ! 3 = Fin 0 \<longrightarrow>
            (\<forall>m. ?mu ! 3 = Fin m \<longrightarrow>
               z_score_column ?xs ?mu ?sd ! 3 =
                 (if ?xs ! 3 = m then NaN else if m < ?xs ! 3 then PInf else NInf)))"
    by blast+
  from zero len sd
  have "\<forall>m. ?mu ! 3 = Fin m \<longrightarrow>
          z_score_column ?xs ?mu ?sd ! 3 =
            (if ?xs ! 3 = m then NaN else if m < ?xs ! 3 then PInf else NInf)"
    by blast
  with mu have "z_score_column ?xs ?mu ?sd ! 3 =
            (if ?xs ! 3 = 7 / 2 then NaN else if 7 / 2 < ?xs ! 3 then PInf else NInf)"
    by blast
  then have "z_score_column ?xs ?mu ?sd ! 3 = NaN"
    by (simp add: x)
  with col calculate_flat sd mu x show ?thesis
    by simp
qed

end
